theory Spec2Isabelle
  imports Main "HOL-Library.Word" "HOL-Library.Multiset" "HOL-Library.Sublist"
begin

unbundle bit_operations_syntax

section \<open>The kqueue event loop: data model\<close>

text \<open>
  A shallow embedding of \<^verbatim>\<open>source/bsd/kqueue_event_loop.c\<close>. The functions of the C file
  become HOL functions over an explicit \<open>world\<close>: the fields of \<^verbatim>\<open>struct kqueue_loop\<close>, the
  memory that holds the \<^verbatim>\<open>struct handle_data\<close> records, the \<^verbatim>\<open>additional_data\<close> slot of
  the callers' io handles, and a trace of every call that leaves the file (the mutex, the
  signalling pipe, the thread, \<^verbatim>\<open>kevent()\<close>, user callbacks, the allocator). What those
  outside calls answer (the receipts of \<^verbatim>\<open>kevent()\<close>, the error code of a thread launch or
  join, the clock) is an argument of the function that makes the call.
\<close>

type_synonym addr = nat

datatype event_thread_state =
    EVENT_THREAD_STATE_READY_TO_RUN
  | EVENT_THREAD_STATE_RUNNING
  | EVENT_THREAD_STATE_STOPPING

datatype aws_task_status = AWS_TASK_STATUS_RUN_READY | AWS_TASK_STATUS_CANCELED

text \<open>The two return codes of the library, \<^verbatim>\<open>AWS_OP_SUCCESS\<close> and \<^verbatim>\<open>AWS_OP_ERR\<close>.\<close>

definition AWS_OP_SUCCESS :: int where "AWS_OP_SUCCESS = 0"
definition AWS_OP_ERR :: int where "AWS_OP_ERR = - 1"

text \<open>\<^verbatim>\<open>enum { DEFAULT_TIMEOUT_SEC = 100, MAX_EVENTS = 100 }\<close>; the source documents the first as
  "Max kevent() timeout per loop of the event-thread".\<close>

definition DEFAULT_TIMEOUT_SEC :: nat where "DEFAULT_TIMEOUT_SEC = 100"
definition MAX_EVENTS :: nat where "MAX_EVENTS = 100"

subsection \<open>Kernel events\<close>

text \<open>
  \<^verbatim>\<open>struct kevent\<close> of \<^verbatim>\<open><sys/event.h>\<close>: \<open>flags\<close> is an unsigned short, \<open>filter\<close> a short,
  \<open>data\<close> an \<^verbatim>\<open>intptr_t\<close> that the file only compares with zero, \<open>udata\<close> the address of
  the \<^verbatim>\<open>handle_data\<close> the registration belongs to. The constants are those of the BSD
  header, which is not part of the repository.
\<close>

record kevent =
  ident :: int
  filter_kev :: int
  flags :: "16 word"
  fflags :: "32 word"
  data :: int
  udata :: addr

definition EVFILT_READ :: int where "EVFILT_READ = - 1"
definition EVFILT_WRITE :: int where "EVFILT_WRITE = - 2"

definition EV_ADD :: "16 word" where "EV_ADD = 0x0001"
definition EV_DELETE :: "16 word" where "EV_DELETE = 0x0002"
definition EV_RECEIPT :: "16 word" where "EV_RECEIPT = 0x0040"
definition EV_ERROR :: "16 word" where "EV_ERROR = 0x4000"
definition EV_EOF :: "16 word" where "EV_EOF = 0x8000"

text \<open>\<^verbatim>\<open>EV_SET(&kev, ident, filter, flags, fflags, data, udata)\<close>.\<close>

definition EV_SET :: "int \<Rightarrow> int \<Rightarrow> 16 word \<Rightarrow> 32 word \<Rightarrow> int \<Rightarrow> addr \<Rightarrow> kevent" where
  "EV_SET i f fl ffl d u =
     \<lparr>ident = i, filter_kev = f, flags = fl, fflags = ffl, data = d, udata = u\<rparr>"

text \<open>
  Modelled from the spec: the event flag bitmask of \<^verbatim>\<open>aws/io/event_loop.h\<close>
  (\<^verbatim>\<open>enum aws_io_event_type\<close>), a header of the repository that is not among the sources.
  The spec gives the flags \<open>READABLE\<close>, \<open>WRITABLE\<close>, \<open>CLOSED\<close> and \<open>ERROR\<close> as the members of
  a bitmask; each is one bit of a C \<^verbatim>\<open>int\<close>.
\<close>

definition AWS_IO_EVENT_TYPE_READABLE :: "32 word" where "AWS_IO_EVENT_TYPE_READABLE = 1"
definition AWS_IO_EVENT_TYPE_WRITABLE :: "32 word" where "AWS_IO_EVENT_TYPE_WRITABLE = 2"
definition AWS_IO_EVENT_TYPE_CLOSED :: "32 word" where "AWS_IO_EVENT_TYPE_CLOSED = 8"
definition AWS_IO_EVENT_TYPE_ERROR :: "32 word" where "AWS_IO_EVENT_TYPE_ERROR = 16"

text \<open>\<^verbatim>\<open>s_aws_event_flags_from_kevent\<close>: the local \<open>event_flags\<close> starts at 0 and each
  branch ors one flag into it.\<close>

definition s_aws_event_flags_from_kevent :: "kevent \<Rightarrow> 32 word" where
  "s_aws_event_flags_from_kevent kev =
     (let event_flags = 0 in
      if flags kev AND EV_ERROR \<noteq> 0 then event_flags OR AWS_IO_EVENT_TYPE_ERROR
      else if filter_kev kev = EVFILT_READ then
        (let event_flags =
               (if data kev \<noteq> 0 then event_flags OR AWS_IO_EVENT_TYPE_READABLE else event_flags)
         in if flags kev AND EV_EOF \<noteq> 0 then event_flags OR AWS_IO_EVENT_TYPE_CLOSED
            else event_flags)
      else if filter_kev kev = EVFILT_WRITE then
        (let event_flags =
               (if data kev \<noteq> 0 then event_flags OR AWS_IO_EVENT_TYPE_WRITABLE else event_flags)
         in if flags kev AND EV_EOF \<noteq> 0 then event_flags OR AWS_IO_EVENT_TYPE_CLOSED
            else event_flags)
      else event_flags)"

subsection \<open>The timeout of the next \<^verbatim>\<open>kevent()\<close> call\<close>

text \<open>
  \<^verbatim>\<open>struct timespec\<close>. The source stores an unsigned 64-bit number of seconds into \<open>tv_sec\<close>
  and the remainder into \<open>tv_nsec\<close> through casts to \<^verbatim>\<open>time_t\<close> and \<^verbatim>\<open>long\<close>; both are taken
  to be a \<^verbatim>\<open>long\<close> of \<open>LENGTH('l)\<close> bits ("On Darwin, these values are stored as longs"):
  the fields are read at type \<open>'l word\<close>, and the cast keeps the low bits.
\<close>

record 'a timespec =
  tv_sec :: 'a
  tv_nsec :: 'a

text \<open>\<^verbatim>\<open>LONG_MAX\<close> for a \<^verbatim>\<open>long\<close> of \<open>LENGTH('l)\<close> bits, as the 64-bit unsigned value the
  comparison \<^verbatim>\<open>timeout_sec > LONG_MAX\<close> converts it to.\<close>

definition LONG_MAX :: "'l::len itself \<Rightarrow> 64 word" where
  "LONG_MAX l = 2 ^ (LENGTH('l) - 1) - 1"

text \<open>
  \<^verbatim>\<open>aws_timestamp_convert\<close> is a function of another library, aws-c-common (its header
  \<^verbatim>\<open>aws/common/clock.h\<close>); it is modelled here after that library. Its arguments are, in
  this order, the timestamp, the unit the timestamp is given in (\<open>convert_from\<close>), the
  unit to convert it to (\<open>convert_to\<close>) and the address of the remainder. A unit is the
  number of its ticks in a second. Towards a finer unit the timestamp is multiplied and
  the remainder is not written; towards a coarser unit it is divided and the remainder
  written. The second component of the result is the remainder after the call. The
  multiplication \<open>mul\<close> is an argument: releases of the library differ in it (a plain
  64-bit multiplication, which wraps around, or a saturating one).
\<close>

datatype aws_timestamp_unit =
    AWS_TIMESTAMP_SECS
  | AWS_TIMESTAMP_MILLIS
  | AWS_TIMESTAMP_MICROS
  | AWS_TIMESTAMP_NANOS

fun unit_ticks :: "aws_timestamp_unit \<Rightarrow> 64 word" where
  "unit_ticks AWS_TIMESTAMP_SECS = 1"
| "unit_ticks AWS_TIMESTAMP_MILLIS = 1000"
| "unit_ticks AWS_TIMESTAMP_MICROS = 1000000"
| "unit_ticks AWS_TIMESTAMP_NANOS = 1000000000"

definition mul_u64_saturating :: "64 word \<Rightarrow> 64 word \<Rightarrow> 64 word" where
  "mul_u64_saturating a b = (if unat a * unat b < 2 ^ 64 then a * b else - 1)"

definition aws_timestamp_convert ::
  "(64 word \<Rightarrow> 64 word \<Rightarrow> 64 word) \<Rightarrow> 64 word \<Rightarrow> aws_timestamp_unit \<Rightarrow> aws_timestamp_unit
     \<Rightarrow> 64 word \<Rightarrow> 64 word \<times> 64 word" where
  "aws_timestamp_convert mul timestamp convert_from convert_to remainder =
     (if unit_ticks convert_to > unit_ticks convert_from then
        (mul timestamp (unit_ticks convert_to div unit_ticks convert_from), remainder)
      else if unit_ticks convert_to < unit_ticks convert_from then
        (timestamp div (unit_ticks convert_from div unit_ticks convert_to),
         timestamp mod (unit_ticks convert_from div unit_ticks convert_to))
      else (timestamp, remainder))"

text \<open>
  The last part of the body of the loop of \<^verbatim>\<open>s_event_thread_main\<close> ("Set timeout for next
  kevent() call"). \<open>clock_err\<close> and \<open>now_ns\<close> are what the second clock read returned,
  \<open>has_tasks\<close> and \<open>next_run_time_ns\<close> what \<^verbatim>\<open>aws_task_scheduler_has_tasks\<close> returned,
  \<open>convert\<close> is the library's \<^verbatim>\<open>aws_timestamp_convert\<close>. The source calls it as
  \<^verbatim>\<open>aws_timestamp_convert(timeout_ns, AWS_TIMESTAMP_SECS, AWS_TIMESTAMP_NANOS,
  &timeout_remainder_ns)\<close>, with \<open>timeout_remainder_ns\<close> set to 0 before, under the comment
  "Convert from timestamp in nanoseconds, to timeout in seconds with nanosecond
  remainder".
\<close>

definition s_next_timeout ::
  "'l::len itself
     \<Rightarrow> (64 word \<Rightarrow> aws_timestamp_unit \<Rightarrow> aws_timestamp_unit \<Rightarrow> 64 word \<Rightarrow> 64 word \<times> 64 word)
     \<Rightarrow> bool \<Rightarrow> 64 word \<Rightarrow> bool \<Rightarrow> 64 word \<Rightarrow> 'l word timespec" where
  "s_next_timeout l convert clock_err now_ns has_tasks next_run_time_ns =
     (let use_default_timeout = False;
          use_default_timeout = (if clock_err then True else use_default_timeout);
          use_default_timeout = (if \<not> has_tasks then True else use_default_timeout)
      in if use_default_timeout then
           \<lparr>tv_sec = of_nat DEFAULT_TIMEOUT_SEC, tv_nsec = 0\<rparr>
         else
           (let timeout_ns =
                  (if next_run_time_ns > now_ns then next_run_time_ns - now_ns else 0);
                timeout_remainder_ns = 0;
                (timeout_sec, timeout_remainder_ns) =
                  convert timeout_ns AWS_TIMESTAMP_SECS AWS_TIMESTAMP_NANOS timeout_remainder_ns;
                (timeout_sec, timeout_remainder_ns) =
                  (if timeout_sec > LONG_MAX l then (LONG_MAX l, 0)
                   else (timeout_sec, timeout_remainder_ns))
            in \<lparr>tv_sec = ucast timeout_sec, tv_nsec = ucast timeout_remainder_ns\<rparr>))"

subsection \<open>Tasks, subscription records and the state of the loop\<close>

text \<open>
  \<^verbatim>\<open>struct aws_task\<close>: the function \<open>fn\<close>, its argument \<open>arg\<close>, the \<open>timestamp\<close>. The file
  itself puts two functions into tasks, \<^verbatim>\<open>s_subscribe_task\<close> and \<^verbatim>\<open>s_unsubscribe_task\<close>, with
  the address of the \<^verbatim>\<open>handle_data\<close> as argument; every other task function is user code,
  named by a number. What a user's task function does when it is called with
  \<^verbatim>\<open>AWS_TASK_STATUS_CANCELED\<close> is not in this file; the one thing the file provides for
  (see \<^verbatim>\<open>s_destroy\<close>) is that it may add further tasks to the event loop, and \<open>on_cancel\<close>
  lists the tasks it adds, each with the \<open>timestamp\<close> it is scheduled for (0 for "now").
\<close>

datatype task_fn = S_subscribe_task | S_unsubscribe_task | User_fn nat

datatype task =
  Task (fn: task_fn) (arg: addr) (timestamp: "64 word") (on_cancel: "task list")

text \<open>\<^verbatim>\<open>struct handle_data\<close>. The \<open>event_loop\<close> field is left out (there is one loop), and
  the two embedded tasks are the tasks \<open>Task S_subscribe_task a\<close> and
  \<open>Task S_unsubscribe_task a\<close> of the record at address \<open>a\<close>. \<open>on_event\<close> names the user's
  callback; 0 is the null pointer.\<close>

record handle_data =
  owner :: addr
  on_event :: nat
  on_event_user_data :: addr
  events_subscribed :: "32 word"
  events_this_loop :: "32 word"
  kevent_added_successfully :: bool

text \<open>What \<^verbatim>\<open>kevent()\<close> returns: -1, or the number of events it wrote to the event list.\<close>

datatype kevent_result = Kevent_failed | Kevent_events "kevent list"

text \<open>The content of \<^verbatim>\<open>cross_thread_data\<close> (the inbox) at one moment: \<open>thread_signaled\<close>,
  \<open>tasks_to_schedule\<close> and \<open>state\<close>.\<close>

type_synonym inbox = "bool \<times> task list \<times> event_thread_state"

text \<open>The calls that leave the file, in the order they are made. The lock and the
  unlock of the mutex record the inbox as it is at the call, so that a trace tells what
  was written to the inbox between the two.\<close>

datatype effect =
    Mutex_lock inbox
  | Mutex_unlock inbox
  | Pipe_write
  | Pipe_drain
  | Thread_launch event_thread_state event_thread_state
  | Thread_join
  | Kevent_call "kevent list"
  | On_event nat addr "32 word" addr
  | Task_invoked task_fn addr aws_task_status
  | Raise_error
  | Mem_release addr
  | Scheduler_clean_up
  | Mutex_clean_up
  | Pipe_close
  | Close_kq
  | Thread_clean_up
  | Release_loop

text \<open>
  \<open>ctd_\<close> fields are \<^verbatim>\<open>impl->cross_thread_data\<close>, \<open>td_\<close> fields \<^verbatim>\<open>impl->thread_data\<close>.
  \<open>td_scheduler\<close> is the content of the task scheduler. \<open>handle_datas\<close> is the memory at
  the addresses of \<^verbatim>\<open>handle_data\<close> records and \<open>allocated\<close> the addresses acquired and not
  yet released; \<open>handle_fd\<close> and \<open>additional_data\<close> are the two fields of the callers'
  \<^verbatim>\<open>aws_io_handle\<close>s the file reads and writes. \<open>kevent_reply\<close> is what the kernel answers
  to a change list submitted with room for as many receipts.
  \<open>Thread_launch\<close> records the two state copies as they are when the thread is launched.
  The thread object \<^verbatim>\<open>impl->thread\<close> belongs to the thread library; what the library
  answers about it is an argument of the function that asks.
  \<open>td_connected_handle_count\<close> is a C \<^verbatim>\<open>int\<close>; it counts subscribed handles, and is
  modelled without a bound.
\<close>

record world =
  ctd_thread_signaled :: bool
  ctd_tasks_to_schedule :: "task list"
  ctd_state :: event_thread_state
  td_scheduler :: "task list"
  td_connected_handle_count :: int
  td_state :: event_thread_state
  signal_pipe_read_fd :: int
  handle_datas :: "addr \<Rightarrow> handle_data"
  allocated :: "addr set"
  handle_fd :: "addr \<Rightarrow> int"
  additional_data :: "addr \<Rightarrow> addr option"
  kevent_reply :: "kevent list \<Rightarrow> kevent_result"
  trace :: "effect list"

text \<open>
  How a call ends. \<^verbatim>\<open>assert\<close> aborts the program unless the file is compiled with
  \<^verbatim>\<open>NDEBUG\<close>, which removes it; the functions with an assertion take \<open>ndebug\<close> as their first
  argument. \<open>Null_dereference\<close> is a write through a null \<^verbatim>\<open>handle_data\<close> pointer.
\<close>

datatype 'a outcome = Assertion_failed | Null_dereference | Returned 'a

definition emit :: "effect list \<Rightarrow> world \<Rightarrow> world" where
  "emit es w = w\<lparr>trace := trace w @ es\<rparr>"

definition inbox_of :: "world \<Rightarrow> inbox" where
  "inbox_of w = (ctd_thread_signaled w, ctd_tasks_to_schedule w, ctd_state w)"

text \<open>\<^verbatim>\<open>aws_mutex_lock\<close> and \<^verbatim>\<open>aws_mutex_unlock\<close> on \<^verbatim>\<open>cross_thread_data.mutex\<close>.\<close>

definition aws_mutex_lock :: "world \<Rightarrow> world" where
  "aws_mutex_lock w = emit [Mutex_lock (inbox_of w)] w"

definition aws_mutex_unlock :: "world \<Rightarrow> world" where
  "aws_mutex_unlock w = emit [Mutex_unlock (inbox_of w)] w"

section \<open>Lifecycle: run, stop, wait_for_stop_completion\<close>

text \<open>\<^verbatim>\<open>s_run\<close>. \<open>launch_err\<close> is the error code of \<^verbatim>\<open>aws_thread_launch\<close> being non-zero.\<close>

definition s_run :: "bool \<Rightarrow> bool \<Rightarrow> world \<Rightarrow> (int \<times> world) outcome" where
  "s_run ndebug launch_err w =
     (if \<not> ndebug \<and> ctd_state w \<noteq> EVENT_THREAD_STATE_READY_TO_RUN then Assertion_failed
      else if \<not> ndebug \<and> td_state w \<noteq> EVENT_THREAD_STATE_READY_TO_RUN then Assertion_failed
      else
        (let w = w\<lparr>ctd_state := EVENT_THREAD_STATE_RUNNING\<rparr>;
             w = emit [Thread_launch (ctd_state w) (td_state w)] w
         in if launch_err then
              Returned (AWS_OP_ERR, w\<lparr>ctd_state := EVENT_THREAD_STATE_READY_TO_RUN\<rparr>)
            else Returned (AWS_OP_SUCCESS, w)))"

text \<open>The first two statements of \<^verbatim>\<open>s_event_thread_main\<close>, which the launched thread runs
  before it enters its loop.\<close>

definition s_event_thread_main_entry :: "bool \<Rightarrow> world \<Rightarrow> world outcome" where
  "s_event_thread_main_entry ndebug w =
     (if \<not> ndebug \<and> td_state w \<noteq> EVENT_THREAD_STATE_READY_TO_RUN then Assertion_failed
      else Returned (w\<lparr>td_state := EVENT_THREAD_STATE_RUNNING\<rparr>))"

definition signal_cross_thread_data_changed :: "world \<Rightarrow> world" where
  "signal_cross_thread_data_changed w = emit [Pipe_write] w"

definition s_stop :: "world \<Rightarrow> int \<times> world" where
  "s_stop w =
     (let signal_thread = False;
          w = aws_mutex_lock w;
          (signal_thread, w) =
            (if ctd_state w = EVENT_THREAD_STATE_RUNNING then
               (\<not> ctd_thread_signaled w,
                w\<lparr>ctd_state := EVENT_THREAD_STATE_STOPPING, ctd_thread_signaled := True\<rparr>)
             else (signal_thread, w));
          w = aws_mutex_unlock w;
          w = (if signal_thread then signal_cross_thread_data_changed w else w)
      in (AWS_OP_SUCCESS, w))"


section \<open>Scheduling tasks\<close>

text \<open>
  Modelled from the spec: the task scheduler, which the spec lists as an external
  collaborator with the operations \<open>schedule_now\<close>, \<open>schedule_future(deadline)\<close> and
  \<open>cancel_all\<close>. It holds the tasks handed to it, here in the order of arrival.
\<close>

definition aws_task_scheduler_schedule_now :: "task \<Rightarrow> world \<Rightarrow> world" where
  "aws_task_scheduler_schedule_now t w =
     w\<lparr>td_scheduler := td_scheduler w @ [Task (fn t) (arg t) 0 (on_cancel t)]\<rparr>"

definition aws_task_scheduler_schedule_future :: "task \<Rightarrow> 64 word \<Rightarrow> world \<Rightarrow> world" where
  "aws_task_scheduler_schedule_future t time_to_run w =
     w\<lparr>td_scheduler := td_scheduler w @ [Task (fn t) (arg t) time_to_run (on_cancel t)]\<rparr>"

text \<open>
  \<^verbatim>\<open>s_is_event_thread\<close>. It asks the thread library two things about \<^verbatim>\<open>impl->thread\<close>:
  whether its detach state is \<^verbatim>\<open>AWS_THREAD_JOINABLE\<close>, which it asserts (\<open>joinable\<close> is the
  answer), and whether its id is the id of the calling thread, which it returns
  (\<open>on_event_thread\<close> is the answer).
\<close>

definition s_is_event_thread :: "bool \<Rightarrow> bool \<Rightarrow> bool \<Rightarrow> bool outcome" where
  "s_is_event_thread ndebug joinable on_event_thread =
     (if \<not> ndebug \<and> \<not> joinable then Assertion_failed else Returned on_event_thread)"

text \<open>\<^verbatim>\<open>s_schedule_task_common\<close>. A task is a value here, so \<^verbatim>\<open>assert(task)\<close> holds.\<close>

definition s_schedule_task_common ::
  "bool \<Rightarrow> bool \<Rightarrow> bool \<Rightarrow> task \<Rightarrow> 64 word \<Rightarrow> world \<Rightarrow> world outcome" where
  "s_schedule_task_common ndebug joinable on_event_thread t run_at_nanos w =
     (case s_is_event_thread ndebug joinable on_event_thread of
        Assertion_failed \<Rightarrow> Assertion_failed
      | Null_dereference \<Rightarrow> Null_dereference
      | Returned is_event_thread \<Rightarrow>
          if is_event_thread then
            Returned
              (if run_at_nanos = 0 then aws_task_scheduler_schedule_now t w
               else aws_task_scheduler_schedule_future t run_at_nanos w)
          else
            (let t = Task (fn t) (arg t) run_at_nanos (on_cancel t);
                 should_signal_thread = False;
                 w = aws_mutex_lock w;
                 w = w\<lparr>ctd_tasks_to_schedule := ctd_tasks_to_schedule w @ [t]\<rparr>;
                 (should_signal_thread, w) =
                   (if \<not> ctd_thread_signaled w then (True, w\<lparr>ctd_thread_signaled := True\<rparr>)
                    else (should_signal_thread, w));
                 w = aws_mutex_unlock w
             in Returned
                  (if should_signal_thread then signal_cross_thread_data_changed w else w)))"

definition s_schedule_task_now :: "bool \<Rightarrow> bool \<Rightarrow> bool \<Rightarrow> task \<Rightarrow> world \<Rightarrow> world outcome" where
  "s_schedule_task_now ndebug joinable on_event_thread t w =
     s_schedule_task_common ndebug joinable on_event_thread t 0 w"

definition s_schedule_task_future ::
  "bool \<Rightarrow> bool \<Rightarrow> bool \<Rightarrow> task \<Rightarrow> 64 word \<Rightarrow> world \<Rightarrow> world outcome" where
  "s_schedule_task_future ndebug joinable on_event_thread t run_at_nanos w =
     s_schedule_task_common ndebug joinable on_event_thread t run_at_nanos w"

section \<open>Subscribing and unsubscribing\<close>

text \<open>The change list both tasks build: one entry for the read filter if the handle is
  subscribed for \<open>READABLE\<close>, then one for the write filter if it is subscribed for
  \<open>WRITABLE\<close>, each made by \<^verbatim>\<open>EV_SET\<close> with the given flags.\<close>

definition build_changelist :: "16 word \<Rightarrow> addr \<Rightarrow> world \<Rightarrow> kevent list" where
  "build_changelist fl handle_data w =
     (let hd = handle_datas w handle_data;
          changelist = [];
          changelist =
            (if events_subscribed hd AND AWS_IO_EVENT_TYPE_READABLE \<noteq> 0 then
               changelist @ [EV_SET (handle_fd w (owner hd)) EVFILT_READ fl 0 0 handle_data]
             else changelist);
          changelist =
            (if events_subscribed hd AND AWS_IO_EVENT_TYPE_WRITABLE \<noteq> 0 then
               changelist @ [EV_SET (handle_fd w (owner hd)) EVFILT_WRITE fl 0 0 handle_data]
             else changelist)
      in changelist)"

text \<open>The loop of \<^verbatim>\<open>s_subscribe_task\<close> that looks through the receipts ("Look through results
  to see if any failed"): it stops at a failed assertion or at the first receipt whose
  \<open>data\<close> is not 0.\<close>

datatype scan = Scan_ok | Scan_failed | Scan_assert

fun scan_receipts :: "bool \<Rightarrow> kevent list \<Rightarrow> scan" where
  "scan_receipts ndebug [] = Scan_ok"
| "scan_receipts ndebug (r # rs) =
     (if \<not> ndebug \<and> flags r AND EV_ERROR = 0 then Scan_assert
      else if data r \<noteq> 0 then Scan_failed
      else scan_receipts ndebug rs)"

text \<open>The loop under the label \<^verbatim>\<open>subscribe_failed\<close> ("Remove any related kevents that
  succeeded"), over the receipts the kernel wrote.\<close>

fun remove_succeeded :: "kevent list \<Rightarrow> world \<Rightarrow> world" where
  "remove_succeeded [] w = w"
| "remove_succeeded (r # rs) w =
     (if data r = 0 then remove_succeeded rs (emit [Kevent_call [r\<lparr>flags := EV_DELETE\<rparr>]] w)
      else remove_succeeded rs w)"

text \<open>The code from the label \<^verbatim>\<open>subscribe_failed\<close> to the end of \<^verbatim>\<open>s_subscribe_task\<close>.
  \<open>receipts\<close> are the first \<open>num_events\<close> entries of the change list; there are none
  when \<^verbatim>\<open>kevent()\<close> returned -1.\<close>

definition subscribe_failed :: "kevent list \<Rightarrow> addr \<Rightarrow> world \<Rightarrow> world" where
  "subscribe_failed receipts handle_data w =
     (let w = w\<lparr>handle_datas := (handle_datas w)
                 (handle_data := (handle_datas w handle_data)\<lparr>kevent_added_successfully := False\<rparr>)\<rparr>;
          w = remove_succeeded receipts w;
          hd = handle_datas w handle_data
      in emit [Raise_error,
               On_event (on_event hd) (owner hd) AWS_IO_EVENT_TYPE_ERROR (on_event_user_data hd)] w)"

text \<open>\<^verbatim>\<open>s_subscribe_task\<close>. The event list of the \<^verbatim>\<open>kevent()\<close> call is the change list
  itself, so the kernel writes at most as many receipts as there are changes.\<close>

definition s_subscribe_task :: "bool \<Rightarrow> addr \<Rightarrow> aws_task_status \<Rightarrow> world \<Rightarrow> world outcome" where
  "s_subscribe_task ndebug user_data status w =
     (let handle_data = user_data;
          w = w\<lparr>td_connected_handle_count := td_connected_handle_count w + 1\<rparr>
      in if status = AWS_TASK_STATUS_CANCELED then Returned w
         else
           (let changelist = build_changelist (EV_ADD OR EV_RECEIPT) handle_data w;
                w = emit [Kevent_call changelist] w
            in case kevent_reply w changelist of
                 Kevent_failed \<Rightarrow> Returned (subscribe_failed [] handle_data w)
               | Kevent_events eventlist \<Rightarrow>
                   (let receipts = take (length changelist) eventlist
                    in case scan_receipts ndebug receipts of
                         Scan_assert \<Rightarrow> Assertion_failed
                       | Scan_failed \<Rightarrow> Returned (subscribe_failed receipts handle_data w)
                       | Scan_ok \<Rightarrow>
                           Returned (w\<lparr>handle_datas := (handle_datas w)
                             (handle_data := (handle_datas w handle_data)
                                \<lparr>kevent_added_successfully := True\<rparr>)\<rparr>))))"

text \<open>\<^verbatim>\<open>s_unsubscribe_task\<close>. The result of its \<^verbatim>\<open>kevent()\<close> call is not looked at.\<close>

definition s_unsubscribe_task :: "addr \<Rightarrow> aws_task_status \<Rightarrow> world \<Rightarrow> world" where
  "s_unsubscribe_task user_data status w =
     (let handle_data = user_data;
          w = w\<lparr>td_connected_handle_count := td_connected_handle_count w - 1\<rparr>;
          w = (if status = AWS_TASK_STATUS_RUN_READY then
                 (if kevent_added_successfully (handle_datas w handle_data) then
                    emit [Kevent_call (build_changelist EV_DELETE handle_data w)] w
                  else w)
               else w)
      in emit [Mem_release handle_data] (w\<lparr>allocated := allocated w - {handle_data}\<rparr>))"

text \<open>
  \<^verbatim>\<open>s_subscribe_to_io_events\<close>. \<open>mem\<close> is what \<^verbatim>\<open>aws_mem_acquire\<close> returns: \<open>None\<close> for a
  null pointer, or the address of the new record. \<open>joinable\<close> and \<open>on_event_thread\<close> are
  the answers to \<^verbatim>\<open>s_is_event_thread\<close>, which \<^verbatim>\<open>s_schedule_task_now\<close> calls.
\<close>

definition s_subscribe_to_io_events ::
  "bool \<Rightarrow> bool \<Rightarrow> bool \<Rightarrow> addr option \<Rightarrow> addr \<Rightarrow> 32 word \<Rightarrow> nat \<Rightarrow> addr \<Rightarrow> world
     \<Rightarrow> (int \<times> world) outcome" where
  "s_subscribe_to_io_events ndebug joinable on_event_thread mem handle events on_event_fn
       user_data w =
     (if \<not> ndebug \<and> handle_fd w handle = - 1 then Assertion_failed
      else if \<not> ndebug \<and> additional_data w handle \<noteq> None then Assertion_failed
      else if \<not> ndebug \<and> on_event_fn = 0 then Assertion_failed
      else if \<not> ndebug \<and>
              events AND (AWS_IO_EVENT_TYPE_READABLE OR AWS_IO_EVENT_TYPE_WRITABLE) = 0
        then Assertion_failed
      else
        (case mem of
           None \<Rightarrow> Returned (AWS_OP_ERR, w)
         | Some handle_data \<Rightarrow>
             (let w = w\<lparr>allocated := insert handle_data (allocated w),
                        handle_datas := (handle_datas w)(handle_data :=
                          \<lparr>owner = handle, on_event = on_event_fn,
                           on_event_user_data = user_data, events_subscribed = events,
                           events_this_loop = 0, kevent_added_successfully = False\<rparr>)\<rparr>;
                  w = w\<lparr>additional_data := (additional_data w)(handle \<mapsto> handle_data)\<rparr>
              in case s_schedule_task_now ndebug joinable on_event_thread
                        (Task S_subscribe_task handle_data 0 []) w of
                   Assertion_failed \<Rightarrow> Assertion_failed
                 | Null_dereference \<Rightarrow> Null_dereference
                 | Returned w \<Rightarrow> Returned (AWS_OP_SUCCESS, w))))"

text \<open>\<^verbatim>\<open>s_unsubscribe_from_io_events\<close>. With the assertion compiled out and no record
  attached, \<^verbatim>\<open>aws_task_init\<close> writes through the null pointer.\<close>

definition s_unsubscribe_from_io_events ::
  "bool \<Rightarrow> bool \<Rightarrow> bool \<Rightarrow> addr \<Rightarrow> world \<Rightarrow> (int \<times> world) outcome" where
  "s_unsubscribe_from_io_events ndebug joinable on_event_thread handle w =
     (case additional_data w handle of
        None \<Rightarrow> (if ndebug then Null_dereference else Assertion_failed)
      | Some handle_data \<Rightarrow>
          (let w = w\<lparr>additional_data := (additional_data w)(handle := None)\<rparr>
           in case s_schedule_task_now ndebug joinable on_event_thread
                     (Task S_unsubscribe_task handle_data 0 []) w of
                Assertion_failed \<Rightarrow> Assertion_failed
              | Null_dereference \<Rightarrow> Null_dereference
              | Returned w \<Rightarrow> Returned (AWS_OP_SUCCESS, w)))"

section \<open>One turn of the loop of the event thread: kernel events and callbacks\<close>

text \<open>
  The first \<^verbatim>\<open>for\<close> loop of the body of the loop of \<^verbatim>\<open>s_event_thread_main\<close>, over the events
  \<^verbatim>\<open>kevent()\<close> returned. \<open>io_handle_events\<close> is the array of that name with its first
  \<open>num_io_handle_events\<close> entries, \<open>should\<close> is \<open>should_process_cross_thread_data\<close>.
\<close>

fun collect_kevents :: "kevent list \<Rightarrow> addr list \<Rightarrow> bool \<Rightarrow> world \<Rightarrow> world \<times> addr list \<times> bool" where
  "collect_kevents [] io_handle_events should w = (w, io_handle_events, should)"
| "collect_kevents (kev # kevs) io_handle_events should w =
     (if ident kev = signal_pipe_read_fd w then
        collect_kevents kevs io_handle_events True (emit [Pipe_drain] w)
      else
        (let event_flags = s_aws_event_flags_from_kevent kev
         in if event_flags = 0 then collect_kevents kevs io_handle_events should w
            else
              (let handle_data = udata kev;
                   io_handle_events =
                     (if events_this_loop (handle_datas w handle_data) = 0 then
                        io_handle_events @ [handle_data]
                      else io_handle_events);
                   w = w\<lparr>handle_datas := (handle_datas w)(handle_data :=
                         (handle_datas w handle_data)\<lparr>events_this_loop :=
                            events_this_loop (handle_datas w handle_data) OR event_flags\<rparr>)\<rparr>
               in collect_kevents kevs io_handle_events should w)))"

text \<open>One turn of the second \<^verbatim>\<open>for\<close> loop ("Invoke each handle's event callback"): the call
  of the callback, then the assignment \<^verbatim>\<open>handle_data->events_this_loop = 0\<close>.\<close>

definition invoke_event_callback :: "addr \<Rightarrow> world \<Rightarrow> world" where
  "invoke_event_callback handle_data w =
     (let hd = handle_datas w handle_data;
          w = emit [On_event (on_event hd) (owner hd) (events_this_loop hd)
                      (on_event_user_data hd)] w
      in w\<lparr>handle_datas := (handle_datas w)(handle_data :=
             (handle_datas w handle_data)\<lparr>events_this_loop := 0\<rparr>)\<rparr>)"

fun invoke_event_callbacks :: "addr list \<Rightarrow> world \<Rightarrow> world" where
  "invoke_event_callbacks [] w = w"
| "invoke_event_callbacks (handle_data # rest) w =
     invoke_event_callbacks rest (invoke_event_callback handle_data w)"

text \<open>
  The body of the loop from the \<^verbatim>\<open>kevent()\<close> call to the end of the second \<^verbatim>\<open>for\<close> loop.
  \<open>answer\<close> is what the waiting \<^verbatim>\<open>kevent()\<close> call returned; the kernel writes at most
  \<open>MAX_EVENTS\<close> events. The result is the world and \<open>should_process_cross_thread_data\<close>.
\<close>

definition dispatch_kevents :: "kevent_result \<Rightarrow> world \<Rightarrow> world \<times> bool" where
  "dispatch_kevents answer w =
     (let w = emit [Kevent_call []] w
      in case answer of
           Kevent_failed \<Rightarrow> (emit [Raise_error] w, True)
         | Kevent_events kevents \<Rightarrow>
             (let (w, io_handle_events, should) =
                    collect_kevents (take MAX_EVENTS kevents) [] False w
              in (invoke_event_callbacks io_handle_events w, should)))"

text \<open>The bitwise union of the translated flags of the kernel events of one batch that
  belong to the record at address \<open>a\<close>; events of the signalling pipe belong to no
  record.\<close>

fun handle_union :: "int \<Rightarrow> addr \<Rightarrow> kevent list \<Rightarrow> 32 word" where
  "handle_union pipe_fd a [] = 0"
| "handle_union pipe_fd a (kev # kevs) =
     (if ident kev \<noteq> pipe_fd \<and> udata kev = a then
        s_aws_event_flags_from_kevent kev OR handle_union pipe_fd a kevs
      else handle_union pipe_fd a kevs)"

text \<open>The call of the callback of the record at \<open>a\<close> with the given flags.\<close>

definition callback_of :: "world \<Rightarrow> addr \<Rightarrow> 32 word \<Rightarrow> effect" where
  "callback_of w a event_flags =
     On_event (on_event (handle_datas w a)) (owner (handle_datas w a)) event_flags
       (on_event_user_data (handle_datas w a))"

text \<open>One drain of the signalling pipe for each of its events in the batch.\<close>

definition pipe_drains :: "int \<Rightarrow> kevent list \<Rightarrow> effect list" where
  "pipe_drains pipe_fd kevs = map (\<lambda>kev. Pipe_drain) (filter (\<lambda>kev. ident kev = pipe_fd) kevs)"

section \<open>Destroying the loop\<close>



























section \<open>Example worlds\<close>

text \<open>The loop as \<^verbatim>\<open>aws_event_loop_new_default\<close> leaves it: nothing signalled, no task, both
  state copies \<open>READY_TO_RUN\<close>, no handle subscribed. The read end of the signalling pipe
  is file descriptor 3.\<close>

definition idle_world :: world where
  "idle_world =
     \<lparr>ctd_thread_signaled = False, ctd_tasks_to_schedule = [],
      ctd_state = EVENT_THREAD_STATE_READY_TO_RUN, td_scheduler = [],
      td_connected_handle_count = 0, td_state = EVENT_THREAD_STATE_READY_TO_RUN,
      signal_pipe_read_fd = 3,
      handle_datas = (\<lambda>a. \<lparr>owner = 0, on_event = 0, on_event_user_data = 0,
        events_subscribed = 0, events_this_loop = 0, kevent_added_successfully = False\<rparr>),
      allocated = {}, handle_fd = (\<lambda>h. - 1), additional_data = (\<lambda>h. None),
      kevent_reply = (\<lambda>changes. Kevent_failed), trace = []\<rparr>"

text \<open>The same loop while its event thread runs.\<close>

definition running_world :: world where
  "running_world =
     idle_world\<lparr>ctd_state := EVENT_THREAD_STATE_RUNNING, td_state := EVENT_THREAD_STATE_RUNNING\<rparr>"

text \<open>A handle (at address 10, file descriptor 7) has just been subscribed for reading
  and writing: its record is at address 100 and its subscribe task has not run. The
  kernel of this world accepts the first change of a change list and refuses the second
  with error 9.\<close>

definition subscribing_world :: world where
  "subscribing_world =
     running_world\<lparr>handle_datas := (handle_datas running_world)(100 :=
         \<lparr>owner = 10, on_event = 1, on_event_user_data = 20,
          events_subscribed = AWS_IO_EVENT_TYPE_READABLE OR AWS_IO_EVENT_TYPE_WRITABLE,
          events_this_loop = 0, kevent_added_successfully = False\<rparr>),
       allocated := {100}, handle_fd := (handle_fd running_world)(10 := 7),
       additional_data := (additional_data running_world)(10 \<mapsto> 100),
       kevent_reply := (\<lambda>changes. Kevent_events
          (map (\<lambda>(c, e). c\<lparr>flags := EV_ERROR, data := e\<rparr>) (zip changes [0, 9])))\<rparr>"

text \<open>The same, with a kernel whose \<^verbatim>\<open>kevent()\<close> fails, and with a kernel that accepts
  every change.\<close>

definition refused_world :: world where
  "refused_world = subscribing_world\<lparr>kevent_reply := kevent_reply idle_world\<rparr>"

definition accept_all :: "kevent list \<Rightarrow> kevent_result" where
  "accept_all changes = Kevent_events (map (\<lambda>c. c\<lparr>flags := EV_ERROR, data := 0\<rparr>) changes)"

definition accepting_world :: world where
  "accepting_world = subscribing_world\<lparr>kevent_reply := accept_all\<rparr>"

text \<open>The same handle once its registration has succeeded.\<close>

definition subscribed_world :: world where
  "subscribed_world =
     subscribing_world\<lparr>td_connected_handle_count := 1,
       handle_datas := (handle_datas subscribing_world)(100 :=
         (handle_datas subscribing_world 100)\<lparr>kevent_added_successfully := True\<rparr>)\<rparr>"





section \<open>Event flag translation\<close>

text \<open>
  Claim C5. For every kernel event: if it carries the error marker \<open>EV_ERROR\<close>, the
  translation is \<open>ERROR\<close> alone. Otherwise, for the read filter, the \<open>READABLE\<close> bit is set
  exactly when the payload \<open>data\<close> is not zero, the \<open>CLOSED\<close> bit exactly when \<open>EV_EOF\<close> is
  set, and no other bit is set; for the write filter the same holds with \<open>WRITABLE\<close> in
  the place of \<open>READABLE\<close>.
\<close>

theorem flags_from_kevent_translation:
  "(flags kev AND EV_ERROR \<noteq> 0 \<longrightarrow>
      s_aws_event_flags_from_kevent kev = AWS_IO_EVENT_TYPE_ERROR) \<and>
   (flags kev AND EV_ERROR = 0 \<and> filter_kev kev = EVFILT_READ \<longrightarrow>
      (s_aws_event_flags_from_kevent kev AND AWS_IO_EVENT_TYPE_READABLE \<noteq> 0
         \<longleftrightarrow> data kev \<noteq> 0) \<and>
      (s_aws_event_flags_from_kevent kev AND AWS_IO_EVENT_TYPE_CLOSED \<noteq> 0
         \<longleftrightarrow> flags kev AND EV_EOF \<noteq> 0) \<and>
      s_aws_event_flags_from_kevent kev
        AND NOT (AWS_IO_EVENT_TYPE_READABLE OR AWS_IO_EVENT_TYPE_CLOSED) = 0) \<and>
   (flags kev AND EV_ERROR = 0 \<and> filter_kev kev = EVFILT_WRITE \<longrightarrow>
      (s_aws_event_flags_from_kevent kev AND AWS_IO_EVENT_TYPE_WRITABLE \<noteq> 0
         \<longleftrightarrow> data kev \<noteq> 0) \<and>
      (s_aws_event_flags_from_kevent kev AND AWS_IO_EVENT_TYPE_CLOSED \<noteq> 0
         \<longleftrightarrow> flags kev AND EV_EOF \<noteq> 0) \<and>
      s_aws_event_flags_from_kevent kev
        AND NOT (AWS_IO_EVENT_TYPE_WRITABLE OR AWS_IO_EVENT_TYPE_CLOSED) = 0)"
  by (simp add: s_aws_event_flags_from_kevent_def AWS_IO_EVENT_TYPE_READABLE_def
      AWS_IO_EVENT_TYPE_WRITABLE_def AWS_IO_EVENT_TYPE_CLOSED_def AWS_IO_EVENT_TYPE_ERROR_def
      EVFILT_READ_def EVFILT_WRITE_def)

theorem flags_from_kevent_translation_witness:
  "flags (EV_SET 5 EVFILT_READ EV_EOF 0 3 7) AND EV_ERROR = 0
   \<and> filter_kev (EV_SET 5 EVFILT_READ EV_EOF 0 3 7) = EVFILT_READ
   \<and> s_aws_event_flags_from_kevent (EV_SET 5 EVFILT_READ EV_EOF 0 3 7)
        AND AWS_IO_EVENT_TYPE_READABLE \<noteq> 0
   \<and> s_aws_event_flags_from_kevent (EV_SET 5 EVFILT_READ EV_EOF 0 3 7)
        AND AWS_IO_EVENT_TYPE_CLOSED \<noteq> 0
   \<and> s_aws_event_flags_from_kevent (EV_SET 5 EVFILT_READ EV_EOF 0 3 7)
        AND NOT (AWS_IO_EVENT_TYPE_READABLE OR AWS_IO_EVENT_TYPE_CLOSED) = 0
   \<and> flags (EV_SET 5 EVFILT_WRITE 0 0 4 7) AND EV_ERROR = 0
   \<and> filter_kev (EV_SET 5 EVFILT_WRITE 0 0 4 7) = EVFILT_WRITE
   \<and> s_aws_event_flags_from_kevent (EV_SET 5 EVFILT_WRITE 0 0 4 7)
        AND AWS_IO_EVENT_TYPE_WRITABLE \<noteq> 0
   \<and> s_aws_event_flags_from_kevent (EV_SET 5 EVFILT_WRITE 0 0 4 7)
        AND AWS_IO_EVENT_TYPE_CLOSED = 0
   \<and> flags (EV_SET 5 EVFILT_READ (EV_ERROR OR EV_EOF) 0 2 7) AND EV_ERROR \<noteq> 0
   \<and> s_aws_event_flags_from_kevent (EV_SET 5 EVFILT_READ (EV_ERROR OR EV_EOF) 0 2 7)
        = AWS_IO_EVENT_TYPE_ERROR"
  using flags_from_kevent_translation [of "EV_SET 5 EVFILT_READ EV_EOF 0 3 7"]
    flags_from_kevent_translation [of "EV_SET 5 EVFILT_WRITE 0 0 4 7"]
    flags_from_kevent_translation [of "EV_SET 5 EVFILT_READ (EV_ERROR OR EV_EOF) 0 2 7"]
  by (simp add: EV_SET_def EV_EOF_def EV_ERROR_def EVFILT_READ_def EVFILT_WRITE_def)

section \<open>The timeout of the next wait\<close>

text \<open>If the clock read fails or the scheduler has no tasks, the timeout is the default
  one, 100 seconds and no nanoseconds.\<close>

lemma next_timeout_default:
  "clock_err \<or> \<not> has_tasks \<Longrightarrow>
   s_next_timeout l convert clock_err now_ns has_tasks next_run_time_ns
     = \<lparr>tv_sec = of_nat DEFAULT_TIMEOUT_SEC, tv_nsec = 0\<rparr>"
  by (auto simp add: s_next_timeout_def)

text \<open>Otherwise the timeout is what the call of the conversion makes of
  \<open>max(0, next_run_time_ns - now_ns)\<close>, with the seconds clamped to \<open>LONG_MAX\<close> and the
  remainder then set to zero. Nothing compares it with \<open>DEFAULT_TIMEOUT_SEC\<close>.\<close>

lemma next_timeout_computed:
  "\<not> clock_err \<Longrightarrow> has_tasks \<Longrightarrow>
   convert (if now_ns < next_run_time_ns then next_run_time_ns - now_ns else 0)
     AWS_TIMESTAMP_SECS AWS_TIMESTAMP_NANOS 0 = (secs, rem_ns) \<Longrightarrow>
   s_next_timeout l convert clock_err now_ns has_tasks next_run_time_ns
     = (if LONG_MAX l < secs then \<lparr>tv_sec = ucast (LONG_MAX l), tv_nsec = 0\<rparr>
        else \<lparr>tv_sec = ucast secs, tv_nsec = ucast rem_ns\<rparr>)"
  by (simp add: s_next_timeout_def)

text \<open>With the units in the order of the call, from seconds to nanoseconds, the library
  multiplies by \<open>10\<^sup>9\<close> and leaves the remainder as it was.\<close>

lemma convert_as_called:
  "aws_timestamp_convert mul timeout_ns AWS_TIMESTAMP_SECS AWS_TIMESTAMP_NANOS 0
     = (mul timeout_ns 1000000000, 0)"
  by (simp add: aws_timestamp_convert_def)

text \<open>
  Claim C1. The claim says that the timeout handed to the next wait is
  \<open>max(0, nearest_deadline - now)\<close> and never exceeds \<open>DEFAULT_TIMEOUT_SEC\<close>; the source's
  comments say the same (on the call: "Convert from timestamp in nanoseconds, to
  timeout in seconds"; on the constant: "Max kevent() timeout per loop of the
  event-thread"). The code does neither. On a platform with a 64-bit \<^verbatim>\<open>long\<close>, with the
  clock reading 0 without error and the scheduler's nearest task due 1.5 seconds later,
  the code sets a timeout of \<open>1.5 \<times> 10\<^sup>1\<^sup>8\<close> seconds: the call gives the units in the
  order seconds, nanoseconds, so the number of nanoseconds is multiplied by \<open>10\<^sup>9\<close> where
  it should be divided. With the task due 200 seconds later the product exceeds
  \<open>LONG_MAX\<close> and the timeout is \<open>LONG_MAX\<close> seconds. Both hold for the wrapping and for
  the saturating multiplication, and both timeouts are above \<open>DEFAULT_TIMEOUT_SEC\<close>.
\<close>

theorem next_timeout_above_default:
  "s_next_timeout TYPE(64) (aws_timestamp_convert (*)) False 0 True 1500000000
     = \<lparr>tv_sec = 1500000000000000000, tv_nsec = 0\<rparr>
   \<and> s_next_timeout TYPE(64) (aws_timestamp_convert mul_u64_saturating) False 0 True 1500000000
     = \<lparr>tv_sec = 1500000000000000000, tv_nsec = 0\<rparr>
   \<and> s_next_timeout TYPE(64) (aws_timestamp_convert (*)) False 0 True 200000000000
     = \<lparr>tv_sec = 9223372036854775807, tv_nsec = 0\<rparr>
   \<and> s_next_timeout TYPE(64) (aws_timestamp_convert mul_u64_saturating) False 0 True 200000000000
     = \<lparr>tv_sec = 9223372036854775807, tv_nsec = 0\<rparr>
   \<and> DEFAULT_TIMEOUT_SEC
       < unat (tv_sec (s_next_timeout TYPE(64) (aws_timestamp_convert (*)) False 0 True
                         1500000000))
   \<and> DEFAULT_TIMEOUT_SEC
       < unat (tv_sec (s_next_timeout TYPE(64) (aws_timestamp_convert mul_u64_saturating)
                         False 0 True 200000000000))"
  by (simp add: s_next_timeout_def aws_timestamp_convert_def mul_u64_saturating_def
      LONG_MAX_def DEFAULT_TIMEOUT_SEC_def)

section \<open>stop\<close>

text \<open>
  Claim C8. \<open>stop\<close> always returns success. When the inbox state is \<open>RUNNING\<close> it sets it
  to \<open>STOPPING\<close> and \<open>thread_signaled\<close> to true under the mutex: the inbox recorded at the
  lock is the inbox as the caller left it, the inbox recorded at the unlock has the state
  \<open>STOPPING\<close> and \<open>thread_signaled\<close> true, and nothing is written after the unlock.
  After the unlock it writes to the pipe, and only if \<open>thread_signaled\<close> was false. When
  the state is not \<open>RUNNING\<close> it changes no field of the world (so none of the inbox: the
  same inbox is recorded at the lock and at the unlock) and writes nothing to the pipe;
  the only calls it makes are the lock and the unlock of the mutex. It is idempotent: a
  second \<open>stop\<close> right after the first changes no field and writes nothing to the pipe,
  whatever the state was.
\<close>

theorem s_stop_frame:
  "fst (s_stop w) = AWS_OP_SUCCESS \<and>
   (ctd_state w = EVENT_THREAD_STATE_RUNNING \<longrightarrow>
      snd (s_stop w) =
        w\<lparr>ctd_state := EVENT_THREAD_STATE_STOPPING, ctd_thread_signaled := True,
          trace := trace w
            @ [Mutex_lock (ctd_thread_signaled w, ctd_tasks_to_schedule w,
                           EVENT_THREAD_STATE_RUNNING),
               Mutex_unlock (True, ctd_tasks_to_schedule w, EVENT_THREAD_STATE_STOPPING)]
            @ (if ctd_thread_signaled w then [] else [Pipe_write])\<rparr>) \<and>
   (ctd_state w \<noteq> EVENT_THREAD_STATE_RUNNING \<longrightarrow>
      snd (s_stop w) =
        w\<lparr>trace := trace w @ [Mutex_lock (inbox_of w), Mutex_unlock (inbox_of w)]\<rparr>) \<and>
   snd (s_stop (snd (s_stop w))) =
     (snd (s_stop w))\<lparr>trace := trace (snd (s_stop w))
        @ [Mutex_lock (inbox_of (snd (s_stop w))), Mutex_unlock (inbox_of (snd (s_stop w)))]\<rparr>"
  by (simp add: s_stop_def aws_mutex_lock_def aws_mutex_unlock_def inbox_of_def emit_def
      signal_cross_thread_data_changed_def Let_def)

theorem s_stop_frame_witness:
  "ctd_state running_world = EVENT_THREAD_STATE_RUNNING
   \<and> ctd_state idle_world \<noteq> EVENT_THREAD_STATE_RUNNING
   \<and> fst (s_stop running_world) = AWS_OP_SUCCESS
   \<and> snd (s_stop running_world) =
       running_world\<lparr>ctd_state := EVENT_THREAD_STATE_STOPPING, ctd_thread_signaled := True,
         trace := [Mutex_lock (False, [], EVENT_THREAD_STATE_RUNNING),
                   Mutex_unlock (True, [], EVENT_THREAD_STATE_STOPPING), Pipe_write]\<rparr>
   \<and> snd (s_stop idle_world) =
       idle_world\<lparr>trace := [Mutex_lock (False, [], EVENT_THREAD_STATE_READY_TO_RUN),
                             Mutex_unlock (False, [], EVENT_THREAD_STATE_READY_TO_RUN)]\<rparr>"
  using s_stop_frame [of running_world] s_stop_frame [of idle_world]
  by (simp add: running_world_def idle_world_def inbox_of_def)

section \<open>run\<close>

text \<open>
  Claim C3, as the spec states it, fails on the code. \<^verbatim>\<open>s_run\<close> writes only the inbox copy
  of the state: on the loop as it is created, with assertions compiled in and a launch
  that succeeds, the thread is launched with the inbox copy \<open>RUNNING\<close> and the
  thread-private copy \<open>READY_TO_RUN\<close>, and the thread-private copy is still
  \<open>READY_TO_RUN\<close> when \<open>run\<close> returns. And compiled with \<^verbatim>\<open>NDEBUG\<close>, \<open>run\<close> on a loop whose
  state is not \<open>READY_TO_RUN\<close> does not fail.
\<close>

theorem s_run_thread_state_counterexample:
  "s_run False False idle_world =
     Returned (AWS_OP_SUCCESS,
       idle_world\<lparr>ctd_state := EVENT_THREAD_STATE_RUNNING,
         trace := [Thread_launch EVENT_THREAD_STATE_RUNNING EVENT_THREAD_STATE_READY_TO_RUN]\<rparr>)
   \<and> td_state (idle_world\<lparr>ctd_state := EVENT_THREAD_STATE_RUNNING,
         trace := [Thread_launch EVENT_THREAD_STATE_RUNNING EVENT_THREAD_STATE_READY_TO_RUN]\<rparr>)
       \<noteq> EVENT_THREAD_STATE_RUNNING
   \<and> s_run True False running_world =
     Returned (AWS_OP_SUCCESS,
       running_world\<lparr>trace :=
         [Thread_launch EVENT_THREAD_STATE_RUNNING EVENT_THREAD_STATE_RUNNING]\<rparr>)"
  by (simp add: s_run_def emit_def idle_world_def running_world_def)

text \<open>
  Claim C3, amended. When both state copies are \<open>READY_TO_RUN\<close>, \<open>run\<close> writes the inbox
  copy to \<open>RUNNING\<close> before it launches the thread and leaves the thread-private copy
  \<open>READY_TO_RUN\<close>; it is the launched thread that sets its private copy to \<open>RUNNING\<close>, as
  its first step. If the launch fails, \<open>run\<close> returns \<^verbatim>\<open>AWS_OP_ERR\<close> with the inbox copy
  back at \<open>READY_TO_RUN\<close>. When a copy is not \<open>READY_TO_RUN\<close> and assertions are compiled
  in, \<open>run\<close> stops at a failed assertion.
\<close>

theorem s_run_lifecycle:
  "(ctd_state w = EVENT_THREAD_STATE_READY_TO_RUN \<and> td_state w = EVENT_THREAD_STATE_READY_TO_RUN
      \<longrightarrow>
      s_run ndebug False w =
        Returned (AWS_OP_SUCCESS,
          w\<lparr>ctd_state := EVENT_THREAD_STATE_RUNNING,
            trace := trace w
              @ [Thread_launch EVENT_THREAD_STATE_RUNNING EVENT_THREAD_STATE_READY_TO_RUN]\<rparr>)
      \<and> s_event_thread_main_entry ndebug
          (w\<lparr>ctd_state := EVENT_THREAD_STATE_RUNNING,
             trace := trace w
               @ [Thread_launch EVENT_THREAD_STATE_RUNNING EVENT_THREAD_STATE_READY_TO_RUN]\<rparr>) =
        Returned
          (w\<lparr>ctd_state := EVENT_THREAD_STATE_RUNNING, td_state := EVENT_THREAD_STATE_RUNNING,
             trace := trace w
               @ [Thread_launch EVENT_THREAD_STATE_RUNNING EVENT_THREAD_STATE_READY_TO_RUN]\<rparr>)
      \<and> s_run ndebug True w =
        Returned (AWS_OP_ERR,
          w\<lparr>ctd_state := EVENT_THREAD_STATE_READY_TO_RUN,
            trace := trace w
              @ [Thread_launch EVENT_THREAD_STATE_RUNNING EVENT_THREAD_STATE_READY_TO_RUN]\<rparr>)) \<and>
   (ctd_state w \<noteq> EVENT_THREAD_STATE_READY_TO_RUN \<or> td_state w \<noteq> EVENT_THREAD_STATE_READY_TO_RUN
      \<longrightarrow> s_run False launch_err w = Assertion_failed)"
  by (auto simp add: s_run_def s_event_thread_main_entry_def emit_def)

theorem s_run_lifecycle_witness:
  "ctd_state idle_world = EVENT_THREAD_STATE_READY_TO_RUN
   \<and> td_state idle_world = EVENT_THREAD_STATE_READY_TO_RUN
   \<and> s_run False False idle_world =
       Returned (AWS_OP_SUCCESS,
         idle_world\<lparr>ctd_state := EVENT_THREAD_STATE_RUNNING,
           trace := [Thread_launch EVENT_THREAD_STATE_RUNNING EVENT_THREAD_STATE_READY_TO_RUN]\<rparr>)
   \<and> s_run False True idle_world =
       Returned (AWS_OP_ERR,
         idle_world\<lparr>trace :=
           [Thread_launch EVENT_THREAD_STATE_RUNNING EVENT_THREAD_STATE_READY_TO_RUN]\<rparr>)
   \<and> ctd_state running_world \<noteq> EVENT_THREAD_STATE_READY_TO_RUN
   \<and> s_run False False running_world = Assertion_failed"
  using s_run_lifecycle [of idle_world False] s_run_lifecycle [of running_world False False]
  by (simp add: idle_world_def running_world_def)

section \<open>The subscribe and unsubscribe tasks\<close>

lemma emit_emit: "emit ys (emit xs w) = emit (xs @ ys) w"
  by (simp add: emit_def)

lemma emit_fields:
  "ctd_thread_signaled (emit es w) = ctd_thread_signaled w"
  "ctd_tasks_to_schedule (emit es w) = ctd_tasks_to_schedule w"
  "ctd_state (emit es w) = ctd_state w"
  "td_scheduler (emit es w) = td_scheduler w"
  "td_connected_handle_count (emit es w) = td_connected_handle_count w"
  "td_state (emit es w) = td_state w"
  "signal_pipe_read_fd (emit es w) = signal_pipe_read_fd w"
  "handle_datas (emit es w) = handle_datas w"
  "allocated (emit es w) = allocated w"
  "handle_fd (emit es w) = handle_fd w"
  "additional_data (emit es w) = additional_data w"
  "kevent_reply (emit es w) = kevent_reply w"
  "trace (emit es w) = trace w @ es"
  by (simp_all add: emit_def)

lemma remove_succeeded_emit:
  "remove_succeeded rs w =
     emit (map (\<lambda>r. Kevent_call [r\<lparr>flags := EV_DELETE\<rparr>]) (filter (\<lambda>r. data r = 0) rs)) w"
  by (induction rs arbitrary: w) (simp_all add: emit_emit, simp add: emit_def)

lemma scan_receipts_flagged:
  "ndebug \<or> (\<forall>r \<in> set rs. flags r AND EV_ERROR \<noteq> 0) \<Longrightarrow>
   scan_receipts ndebug rs = (if \<exists>r \<in> set rs. data r \<noteq> 0 then Scan_failed else Scan_ok)"
  by (induction rs) auto

lemma build_changelist_frame:
  "build_changelist fl a (w\<lparr>td_connected_handle_count := c\<rparr>) = build_changelist fl a w"
  "build_changelist fl a (emit es w) = build_changelist fl a w"
  by (simp_all add: build_changelist_def emit_def Let_def)

text \<open>
  Claim C4. The subscribe task runs with status \<open>RUN_READY\<close> and submits its change list.
  If \<^verbatim>\<open>kevent()\<close> fails, or some receipt carries a non-zero \<open>data\<close>, the task sets
  \<open>kevent_added_successfully\<close> to false, submits one delete for each receipt whose \<open>data\<close>
  is zero (none when \<^verbatim>\<open>kevent()\<close> failed: there are no receipts), and calls the
  subscriber's callback once, with the flag \<open>ERROR\<close>. If every receipt has \<open>data\<close> zero it
  sets \<open>kevent_added_successfully\<close> to true and calls no callback. The receipts are
  taken to carry \<open>EV_ERROR\<close>, as the kernel writes them, unless assertions are compiled
  out.
\<close>

theorem s_subscribe_task_registration:
  "let changelist = build_changelist (EV_ADD OR EV_RECEIPT) handle_data w;
       h = handle_datas w handle_data;
       notify = [Raise_error,
                 On_event (on_event h) (owner h) AWS_IO_EVENT_TYPE_ERROR (on_event_user_data h)]
   in
   (kevent_reply w changelist = Kevent_failed \<longrightarrow>
      s_subscribe_task ndebug handle_data AWS_TASK_STATUS_RUN_READY w =
        Returned (w\<lparr>td_connected_handle_count := td_connected_handle_count w + 1,
          handle_datas := (handle_datas w)(handle_data := h\<lparr>kevent_added_successfully := False\<rparr>),
          trace := trace w @ [Kevent_call changelist] @ notify\<rparr>)) \<and>
   (\<forall>eventlist. kevent_reply w changelist = Kevent_events eventlist \<and>
      (ndebug \<or> (\<forall>r \<in> set (take (length changelist) eventlist). flags r AND EV_ERROR \<noteq> 0)) \<longrightarrow>
      s_subscribe_task ndebug handle_data AWS_TASK_STATUS_RUN_READY w =
        (if \<exists>r \<in> set (take (length changelist) eventlist). data r \<noteq> 0 then
           Returned (w\<lparr>td_connected_handle_count := td_connected_handle_count w + 1,
             handle_datas := (handle_datas w)(handle_data := h\<lparr>kevent_added_successfully := False\<rparr>),
             trace := trace w @ [Kevent_call changelist]
               @ map (\<lambda>r. Kevent_call [r\<lparr>flags := EV_DELETE\<rparr>])
                   (filter (\<lambda>r. data r = 0) (take (length changelist) eventlist))
               @ notify\<rparr>)
         else
           Returned (w\<lparr>td_connected_handle_count := td_connected_handle_count w + 1,
             handle_datas := (handle_datas w)(handle_data := h\<lparr>kevent_added_successfully := True\<rparr>),
             trace := trace w @ [Kevent_call changelist]\<rparr>)))"
  unfolding Let_def
proof (intro conjI impI allI)
  let ?cl = "build_changelist (EV_ADD OR EV_RECEIPT) handle_data w"
  assume "kevent_reply w ?cl = Kevent_failed"
  then show "s_subscribe_task ndebug handle_data AWS_TASK_STATUS_RUN_READY w =
        Returned (w\<lparr>td_connected_handle_count := td_connected_handle_count w + 1,
          handle_datas := (handle_datas w)(handle_data :=
            (handle_datas w handle_data)\<lparr>kevent_added_successfully := False\<rparr>),
          trace := trace w @ [Kevent_call ?cl]
            @ [Raise_error,
               On_event (on_event (handle_datas w handle_data)) (owner (handle_datas w handle_data))
                 AWS_IO_EVENT_TYPE_ERROR (on_event_user_data (handle_datas w handle_data))]\<rparr>)"
    by (simp add: s_subscribe_task_def subscribe_failed_def build_changelist_frame emit_fields
        Let_def emit_def)
next
  let ?cl = "build_changelist (EV_ADD OR EV_RECEIPT) handle_data w"
  fix eventlist
  assume a: "kevent_reply w ?cl = Kevent_events eventlist \<and>
      (ndebug \<or> (\<forall>r \<in> set (take (length ?cl) eventlist). flags r AND EV_ERROR \<noteq> 0))"
  then have scan: "scan_receipts ndebug (take (length ?cl) eventlist) =
      (if \<exists>r \<in> set (take (length ?cl) eventlist). data r \<noteq> 0 then Scan_failed else Scan_ok)"
    by (intro scan_receipts_flagged) simp
  from a have reply: "kevent_reply w ?cl = Kevent_events eventlist" by simp
  show "s_subscribe_task ndebug handle_data AWS_TASK_STATUS_RUN_READY w =
        (if \<exists>r \<in> set (take (length ?cl) eventlist). data r \<noteq> 0 then
           Returned (w\<lparr>td_connected_handle_count := td_connected_handle_count w + 1,
             handle_datas := (handle_datas w)(handle_data :=
               (handle_datas w handle_data)\<lparr>kevent_added_successfully := False\<rparr>),
             trace := trace w @ [Kevent_call ?cl]
               @ map (\<lambda>r. Kevent_call [r\<lparr>flags := EV_DELETE\<rparr>])
                   (filter (\<lambda>r. data r = 0) (take (length ?cl) eventlist))
               @ [Raise_error,
                  On_event (on_event (handle_datas w handle_data)) (owner (handle_datas w handle_data))
                    AWS_IO_EVENT_TYPE_ERROR (on_event_user_data (handle_datas w handle_data))]\<rparr>)
         else
           Returned (w\<lparr>td_connected_handle_count := td_connected_handle_count w + 1,
             handle_datas := (handle_datas w)(handle_data :=
               (handle_datas w handle_data)\<lparr>kevent_added_successfully := True\<rparr>),
             trace := trace w @ [Kevent_call ?cl]\<rparr>))"
    using reply scan
    by (simp add: s_subscribe_task_def subscribe_failed_def build_changelist_frame emit_fields
        remove_succeeded_emit Let_def emit_def)
qed


theorem s_subscribe_task_registration_witness:
  "kevent_reply subscribing_world
       (build_changelist (EV_ADD OR EV_RECEIPT) 100 subscribing_world) =
     Kevent_events [EV_SET 7 EVFILT_READ EV_ERROR 0 0 100, EV_SET 7 EVFILT_WRITE EV_ERROR 0 9 100]
   \<and> s_subscribe_task False 100 AWS_TASK_STATUS_RUN_READY subscribing_world =
       Returned (subscribing_world\<lparr>td_connected_handle_count := 1,
         trace := [Kevent_call [EV_SET 7 EVFILT_READ (EV_ADD OR EV_RECEIPT) 0 0 100,
                                EV_SET 7 EVFILT_WRITE (EV_ADD OR EV_RECEIPT) 0 0 100],
                   Kevent_call [EV_SET 7 EVFILT_READ EV_DELETE 0 0 100],
                   Raise_error,
                   On_event 1 10 AWS_IO_EVENT_TYPE_ERROR 20]\<rparr>)
   \<and> kevent_reply refused_world
       (build_changelist (EV_ADD OR EV_RECEIPT) 100 refused_world) = Kevent_failed
   \<and> s_subscribe_task False 100 AWS_TASK_STATUS_RUN_READY refused_world =
       Returned (refused_world\<lparr>td_connected_handle_count := 1,
         trace := [Kevent_call [EV_SET 7 EVFILT_READ (EV_ADD OR EV_RECEIPT) 0 0 100,
                                EV_SET 7 EVFILT_WRITE (EV_ADD OR EV_RECEIPT) 0 0 100],
                   Raise_error,
                   On_event 1 10 AWS_IO_EVENT_TYPE_ERROR 20]\<rparr>)
   \<and> kevent_reply accepting_world
       (build_changelist (EV_ADD OR EV_RECEIPT) 100 accepting_world) =
     Kevent_events [EV_SET 7 EVFILT_READ EV_ERROR 0 0 100, EV_SET 7 EVFILT_WRITE EV_ERROR 0 0 100]
   \<and> s_subscribe_task False 100 AWS_TASK_STATUS_RUN_READY accepting_world =
       Returned (accepting_world\<lparr>td_connected_handle_count := 1,
         handle_datas := (handle_datas accepting_world)(100 :=
           (handle_datas accepting_world 100)\<lparr>kevent_added_successfully := True\<rparr>),
         trace := [Kevent_call [EV_SET 7 EVFILT_READ (EV_ADD OR EV_RECEIPT) 0 0 100,
                                EV_SET 7 EVFILT_WRITE (EV_ADD OR EV_RECEIPT) 0 0 100]]\<rparr>)"
  using s_subscribe_task_registration [of 100 subscribing_world False]
    s_subscribe_task_registration [of 100 refused_world False]
    s_subscribe_task_registration [of 100 accepting_world False]
  by (simp add: Let_def subscribing_world_def refused_world_def accepting_world_def
      accept_all_def running_world_def idle_world_def build_changelist_def EV_SET_def
      EV_ERROR_def AWS_IO_EVENT_TYPE_READABLE_def AWS_IO_EVENT_TYPE_WRITABLE_def)

text \<open>
  Claim C7. Whatever its status, the unsubscribe task decrements
  \<open>connected_handle_count\<close> and releases the record. It submits a change list to the
  kernel only when its status is \<open>RUN_READY\<close> and \<open>kevent_added_successfully\<close> is true, and
  that list holds one delete for each filter the handle was subscribed for.
\<close>

theorem s_unsubscribe_task_effects:
  "s_unsubscribe_task handle_data status w =
     w\<lparr>td_connected_handle_count := td_connected_handle_count w - 1,
       allocated := allocated w - {handle_data},
       trace := trace w
         @ (if status = AWS_TASK_STATUS_RUN_READY
               \<and> kevent_added_successfully (handle_datas w handle_data)
            then [Kevent_call (build_changelist EV_DELETE handle_data w)] else [])
         @ [Mem_release handle_data]\<rparr>
   \<and> build_changelist EV_DELETE handle_data w =
       (if events_subscribed (handle_datas w handle_data) AND AWS_IO_EVENT_TYPE_READABLE \<noteq> 0
        then [EV_SET (handle_fd w (owner (handle_datas w handle_data))) EVFILT_READ EV_DELETE
                0 0 handle_data]
        else [])
       @ (if events_subscribed (handle_datas w handle_data) AND AWS_IO_EVENT_TYPE_WRITABLE \<noteq> 0
          then [EV_SET (handle_fd w (owner (handle_datas w handle_data))) EVFILT_WRITE EV_DELETE
                  0 0 handle_data]
          else [])"
  by (simp add: s_unsubscribe_task_def build_changelist_def emit_def Let_def)

theorem s_unsubscribe_task_effects_witness:
  "s_unsubscribe_task 100 AWS_TASK_STATUS_RUN_READY subscribed_world =
     subscribed_world\<lparr>td_connected_handle_count := 0, allocated := {},
       trace := [Kevent_call [EV_SET 7 EVFILT_READ EV_DELETE 0 0 100,
                              EV_SET 7 EVFILT_WRITE EV_DELETE 0 0 100],
                 Mem_release 100]\<rparr>
   \<and> s_unsubscribe_task 100 AWS_TASK_STATUS_CANCELED subscribed_world =
     subscribed_world\<lparr>td_connected_handle_count := 0, allocated := {},
       trace := [Mem_release 100]\<rparr>"
  using s_unsubscribe_task_effects [of 100 AWS_TASK_STATUS_RUN_READY subscribed_world]
    s_unsubscribe_task_effects [of 100 AWS_TASK_STATUS_CANCELED subscribed_world]
  by (simp add: subscribed_world_def subscribing_world_def running_world_def idle_world_def
      AWS_IO_EVENT_TYPE_READABLE_def AWS_IO_EVENT_TYPE_WRITABLE_def)

text \<open>
  Claim C9. Every execution of the subscribe task that returns has incremented
  \<open>connected_handle_count\<close>, whatever its status, and it returns whenever no assertion
  can fail (the status is \<open>CANCELED\<close>, or assertions are compiled out). Every execution
  of the unsubscribe task decrements the count, whatever its status. So the two
  together leave the count as it was.
\<close>

theorem connected_handle_count_balance:
  "(status = AWS_TASK_STATUS_CANCELED \<or> ndebug \<longrightarrow>
      (\<exists>w1. s_subscribe_task ndebug handle_data status w = Returned w1)) \<and>
   (\<forall>w1. s_subscribe_task ndebug handle_data status w = Returned w1 \<longrightarrow>
      td_connected_handle_count w1 = td_connected_handle_count w + 1 \<and>
      td_connected_handle_count (s_unsubscribe_task handle_data status' w1)
        = td_connected_handle_count w) \<and>
   td_connected_handle_count (s_unsubscribe_task handle_data status' w)
     = td_connected_handle_count w - 1"
proof -
  have scan: "scan_receipts True rs \<noteq> Scan_assert" for rs
    by (induction rs) simp_all
  have sub: "td_connected_handle_count (subscribe_failed rs a v) = td_connected_handle_count v"
    for rs a v
    by (simp add: subscribe_failed_def remove_succeeded_emit emit_fields Let_def)
  have unsub: "td_connected_handle_count (s_unsubscribe_task a st v)
      = td_connected_handle_count v - 1" for a st v
    by (simp add: s_unsubscribe_task_def emit_fields Let_def)
  have ret: "status = AWS_TASK_STATUS_CANCELED \<or> ndebug \<Longrightarrow>
      \<exists>w1. s_subscribe_task ndebug handle_data status w = Returned w1"
    using scan
    by (auto simp add: s_subscribe_task_def Let_def split: kevent_result.split scan.split)
  have inc: "td_connected_handle_count w1 = td_connected_handle_count w + 1"
    if "s_subscribe_task ndebug handle_data status w = Returned w1" for w1
    using that
    by (auto simp add: s_subscribe_task_def Let_def sub emit_fields
        split: if_splits kevent_result.splits scan.splits)
  show ?thesis
    using ret inc unsub by simp
qed

theorem connected_handle_count_balance_witness:
  "(\<exists>w1. s_subscribe_task False 100 AWS_TASK_STATUS_CANCELED subscribing_world = Returned w1
      \<and> td_connected_handle_count w1 = 1
      \<and> td_connected_handle_count (s_unsubscribe_task 100 AWS_TASK_STATUS_CANCELED w1) = 0)
   \<and> td_connected_handle_count (s_unsubscribe_task 100 AWS_TASK_STATUS_RUN_READY subscribed_world)
       = 0"
  using connected_handle_count_balance
    [of AWS_TASK_STATUS_CANCELED False 100 subscribing_world AWS_TASK_STATUS_CANCELED]
    connected_handle_count_balance
    [of AWS_TASK_STATUS_CANCELED False 100 subscribed_world AWS_TASK_STATUS_RUN_READY]
  by (auto simp add: subscribed_world_def subscribing_world_def running_world_def idle_world_def)

section \<open>unsubscribe, then subscribe again\<close>

text \<open>
  Claim C10. \<^verbatim>\<open>s_unsubscribe_from_io_events\<close> is called for a handle with a record
  attached, on a loop whose thread is joinable (or with assertions compiled out): this
  is what the assertion of \<^verbatim>\<open>s_is_event_thread\<close> asks for. Then it returns
  \<^verbatim>\<open>AWS_OP_SUCCESS\<close> with the handle's \<open>additional_data\<close> reset to null and the unsubscribe
  task queued (in the scheduler when called on the event thread, in the inbox
  otherwise) but not run: the record is still allocated, the count is unchanged and no
  call has been made to the kernel or to the allocator. In the world it returns,
  \<^verbatim>\<open>s_subscribe_to_io_events\<close> on the same handle, with a valid file descriptor, a callback
  and a read or write event, passes its assertions and, the thread being joinable still,
  returns \<^verbatim>\<open>AWS_OP_SUCCESS\<close> with the new record attached. When the thread is not
  joinable and assertions are compiled in, the call fails the assertion of
  \<^verbatim>\<open>s_is_event_thread\<close>.
\<close>

theorem unsubscribe_resets_additional_data:
  "additional_data w handle = Some handle_data \<longrightarrow>
     (\<not> ndebug \<and> \<not> joinable \<longrightarrow>
        s_unsubscribe_from_io_events ndebug joinable on_event_thread handle w
          = Assertion_failed) \<and>
     (ndebug \<or> joinable \<longrightarrow>
       (\<exists>w1. s_unsubscribe_from_io_events ndebug joinable on_event_thread handle w
               = Returned (AWS_OP_SUCCESS, w1)
          \<and> additional_data w1 handle = None
          \<and> (if on_event_thread
              then td_scheduler w1 = td_scheduler w @ [Task S_unsubscribe_task handle_data 0 []]
                 \<and> ctd_tasks_to_schedule w1 = ctd_tasks_to_schedule w
              else ctd_tasks_to_schedule w1
                   = ctd_tasks_to_schedule w @ [Task S_unsubscribe_task handle_data 0 []]
                 \<and> td_scheduler w1 = td_scheduler w)
          \<and> allocated w1 = allocated w
          \<and> td_connected_handle_count w1 = td_connected_handle_count w
          \<and> handle_datas w1 = handle_datas w
          \<and> trace w1 = trace w
              @ (if on_event_thread then []
                 else [Mutex_lock (inbox_of w),
                       Mutex_unlock (True,
                         ctd_tasks_to_schedule w @ [Task S_unsubscribe_task handle_data 0 []],
                         ctd_state w)]
                        @ (if ctd_thread_signaled w then [] else [Pipe_write]))
          \<and> (handle_fd w handle \<noteq> - 1 \<and> on_event_fn \<noteq> 0
               \<and> events AND (AWS_IO_EVENT_TYPE_READABLE OR AWS_IO_EVENT_TYPE_WRITABLE) \<noteq> 0
               \<and> (ndebug \<or> joinable') \<longrightarrow>
              (\<exists>w2. s_subscribe_to_io_events ndebug joinable' on_event_thread'
                       (Some new_handle_data) handle events on_event_fn user_data w1
                     = Returned (AWS_OP_SUCCESS, w2)
                 \<and> additional_data w2 handle = Some new_handle_data))))"
  by (auto simp add: s_unsubscribe_from_io_events_def s_subscribe_to_io_events_def
      s_schedule_task_now_def s_schedule_task_common_def s_is_event_thread_def
      aws_task_scheduler_schedule_now_def aws_mutex_lock_def aws_mutex_unlock_def inbox_of_def
      signal_cross_thread_data_changed_def emit_def Let_def)

theorem unsubscribe_resets_additional_data_witness:
  "additional_data subscribed_world 10 = Some 100
   \<and> s_unsubscribe_from_io_events False False False 10 subscribed_world = Assertion_failed
   \<and> (\<exists>w1. s_unsubscribe_from_io_events False True False 10 subscribed_world
             = Returned (AWS_OP_SUCCESS, w1)
        \<and> additional_data w1 10 = None
        \<and> ctd_tasks_to_schedule w1 = [Task S_unsubscribe_task 100 0 []]
        \<and> allocated w1 = {100}
        \<and> (\<exists>w2. s_subscribe_to_io_events False True False (Some 101) 10
                     AWS_IO_EVENT_TYPE_READABLE 1 20 w1
                   = Returned (AWS_OP_SUCCESS, w2)
               \<and> additional_data w2 10 = Some 101))"
  using unsubscribe_resets_additional_data
    [of subscribed_world 10 100 False False False 1 AWS_IO_EVENT_TYPE_READABLE True False 101 20]
    unsubscribe_resets_additional_data
    [of subscribed_world 10 100 False True False 1 AWS_IO_EVENT_TYPE_READABLE True False 101 20]
  by (simp add: subscribed_world_def subscribing_world_def running_world_def idle_world_def
      AWS_IO_EVENT_TYPE_READABLE_def AWS_IO_EVENT_TYPE_WRITABLE_def) blast

section \<open>One callback per handle and turn of the loop\<close>

text \<open>
  The first loop, as an invariant: while \<open>io_handle_events\<close> holds, without repetition,
  exactly the records whose \<open>events_this_loop\<close> is not empty, it stays so, and each
  record's \<open>events_this_loop\<close> grows by the union of its events.
\<close>

lemma collect_kevents_fold:
  "collect_kevents kevs ioh should w = (w', ioh', should') \<Longrightarrow>
   distinct ioh \<Longrightarrow> set ioh = {a. events_this_loop (handle_datas w a) \<noteq> 0} \<Longrightarrow>
   (\<forall>a. handle_datas w' a = (handle_datas w a)\<lparr>events_this_loop :=
         events_this_loop (handle_datas w a) OR handle_union (signal_pipe_read_fd w) a kevs\<rparr>)
   \<and> trace w' = trace w @ pipe_drains (signal_pipe_read_fd w) kevs
   \<and> distinct ioh' \<and> set ioh' = {a. events_this_loop (handle_datas w' a) \<noteq> 0}
   \<and> should' = (should \<or> (\<exists>kev \<in> set kevs. ident kev = signal_pipe_read_fd w))"
proof (induction kevs arbitrary: ioh should w)
  case Nil
  then show ?case by (simp add: pipe_drains_def)
next
  case (Cons kev kevs)
  show ?case
  proof (cases "ident kev = signal_pipe_read_fd w")
    case True
    with Cons.prems(1)
    have "collect_kevents kevs ioh True (emit [Pipe_drain] w) = (w', ioh', should')"
      by simp
    from Cons.IH [OF this] Cons.prems(2,3) True show ?thesis
      by (simp add: emit_fields pipe_drains_def)
  next
    case False
    show ?thesis
    proof (cases "s_aws_event_flags_from_kevent kev = 0")
      case True
      with False Cons.prems(1)
      have "collect_kevents kevs ioh should w = (w', ioh', should')"
        by simp
      from Cons.IH [OF this] Cons.prems(2,3) True False show ?thesis
        by (simp add: pipe_drains_def)
    next
      case nz: False
      let ?p = "udata kev"
      let ?f = "s_aws_event_flags_from_kevent kev"
      let ?w1 = "w\<lparr>handle_datas := (handle_datas w)(?p :=
                   (handle_datas w ?p)\<lparr>events_this_loop :=
                      events_this_loop (handle_datas w ?p) OR ?f\<rparr>)\<rparr>"
      let ?ioh1 = "if events_this_loop (handle_datas w ?p) = 0 then ioh @ [?p] else ioh"
      from False nz Cons.prems(1)
      have step: "collect_kevents kevs ?ioh1 should ?w1 = (w', ioh', should')"
        by (simp add: Let_def)
      have d: "distinct ?ioh1"
        using Cons.prems(2,3) by auto
      have s: "set ?ioh1 = {a. events_this_loop (handle_datas ?w1 a) \<noteq> 0}"
        using Cons.prems(3) nz by (auto simp add: or_eq_0_iff)
      from Cons.IH [OF step d s] False nz show ?thesis
        by (simp add: pipe_drains_def or.assoc)
    qed
  qed
qed

text \<open>The second loop calls the callback of each collected record, with the flags
  collected for it, and empties them.\<close>

lemma invoke_event_callbacks_trace:
  "distinct ioh \<Longrightarrow>
   trace (invoke_event_callbacks ioh w)
     = trace w @ map (\<lambda>a. callback_of w a (events_this_loop (handle_datas w a))) ioh
   \<and> (\<forall>a. handle_datas (invoke_event_callbacks ioh w) a =
         (if a \<in> set ioh then (handle_datas w a)\<lparr>events_this_loop := 0\<rparr>
          else handle_datas w a))"
proof (induction ioh arbitrary: w)
  case Nil
  then show ?case by simp
next
  case (Cons p ioh)
  from Cons.prems have "distinct ioh" and "p \<notin> set ioh" by simp_all
  from Cons.IH [OF \<open>distinct ioh\<close>, of "invoke_event_callback p w"] \<open>p \<notin> set ioh\<close>
  show ?case
    by (auto simp add: invoke_event_callback_def emit_def callback_of_def Let_def)
qed

text \<open>
  Claim C6. A turn of the loop starts with every record's \<open>events_this_loop\<close> empty (a
  record is created so, and the turn before has left it so). Then the callbacks of the
  turn are made for a list of records without repetition, which holds exactly the
  records whose events of this turn translate to a non-empty union of flags; each
  callback carries that union (for a handle both readable and writable, one callback
  with both flags). At the end of the turn every record is as it was at its start, so
  every \<open>events_this_loop\<close> is empty again. The reset is the statement that follows the
  call of the callback: one turn of the second loop makes the call and leaves the
  record's \<open>events_this_loop\<close> empty.
\<close>

theorem dispatch_one_callback_per_handle:
  "(\<forall>a. events_this_loop (handle_datas w a) = 0) \<longrightarrow>
   (\<exists>io_handle_events.
      distinct io_handle_events
      \<and> set io_handle_events =
          {a. handle_union (signal_pipe_read_fd w) a (take MAX_EVENTS kevents) \<noteq> 0}
      \<and> trace (fst (dispatch_kevents (Kevent_events kevents) w)) =
          trace w @ [Kevent_call []]
            @ pipe_drains (signal_pipe_read_fd w) (take MAX_EVENTS kevents)
            @ map (\<lambda>a. callback_of w a
                     (handle_union (signal_pipe_read_fd w) a (take MAX_EVENTS kevents)))
                io_handle_events
      \<and> (\<forall>a. handle_datas (fst (dispatch_kevents (Kevent_events kevents) w)) a
               = handle_datas w a))
   \<and> events_this_loop (handle_datas (invoke_event_callback b v) b) = 0
   \<and> trace (invoke_event_callback b v)
       = trace v @ [callback_of v b (events_this_loop (handle_datas v b))]"
proof (intro conjI impI)
  let ?kevs = "take MAX_EVENTS kevents"
  let ?pipe = "signal_pipe_read_fd w"
  let ?w0 = "emit [Kevent_call []] w"
  assume zero: "\<forall>a. events_this_loop (handle_datas w a) = 0"
  obtain w1 ioh should where c: "collect_kevents ?kevs [] False ?w0 = (w1, ioh, should)"
    by (cases "collect_kevents ?kevs [] False ?w0") auto
  have "distinct ([] :: addr list)" by simp
  moreover have "set [] = {a. events_this_loop (handle_datas ?w0 a) \<noteq> 0}"
    using zero by (simp add: emit_fields)
  ultimately have f: "(\<forall>a. handle_datas w1 a = (handle_datas ?w0 a)\<lparr>events_this_loop :=
         events_this_loop (handle_datas ?w0 a) OR handle_union (signal_pipe_read_fd ?w0) a ?kevs\<rparr>)
     \<and> trace w1 = trace ?w0 @ pipe_drains (signal_pipe_read_fd ?w0) ?kevs
     \<and> distinct ioh \<and> set ioh = {a. events_this_loop (handle_datas w1 a) \<noteq> 0}
     \<and> should = (False \<or> (\<exists>kev \<in> set ?kevs. ident kev = signal_pipe_read_fd ?w0))"
    by (rule collect_kevents_fold [OF c])
  then have hd1: "handle_datas w1 a =
      (handle_datas w a)\<lparr>events_this_loop := handle_union ?pipe a ?kevs\<rparr>" for a
    using zero by (simp add: emit_fields)
  from f have tr1: "trace w1 = trace w @ [Kevent_call []] @ pipe_drains ?pipe ?kevs"
    by (simp add: emit_fields)
  from f have d: "distinct ioh" by simp
  from f hd1 have s: "set ioh = {a. handle_union ?pipe a ?kevs \<noteq> 0}" by simp
  have cb: "callback_of w1 a x = callback_of w a x" for a x
    by (simp add: callback_of_def hd1)
  note inv = invoke_event_callbacks_trace [OF d, of w1]
  have res: "fst (dispatch_kevents (Kevent_events kevents) w) = invoke_event_callbacks ioh w1"
    using c by (simp add: dispatch_kevents_def Let_def)
  have tr: "trace (invoke_event_callbacks ioh w1) =
      trace w @ [Kevent_call []] @ pipe_drains ?pipe ?kevs
        @ map (\<lambda>a. callback_of w a (handle_union ?pipe a ?kevs)) ioh"
    using inv by (simp add: tr1 cb hd1)
  have restored: "handle_datas (invoke_event_callbacks ioh w1) a = handle_datas w a" for a
  proof (cases "a \<in> set ioh")
    case True
    with inv have "handle_datas (invoke_event_callbacks ioh w1) a
        = (handle_datas w1 a)\<lparr>events_this_loop := 0\<rparr>" by simp
    also have "\<dots> = (handle_datas w a)\<lparr>events_this_loop := events_this_loop (handle_datas w a)\<rparr>"
      using zero by (simp add: hd1)
    finally show ?thesis by simp
  next
    case False
    with s have u: "handle_union ?pipe a ?kevs = 0" by simp
    from False inv have "handle_datas (invoke_event_callbacks ioh w1) a = handle_datas w1 a"
      by simp
    also have "\<dots> = (handle_datas w a)\<lparr>events_this_loop := events_this_loop (handle_datas w a)\<rparr>"
      using zero by (simp add: hd1 u)
    finally show ?thesis by simp
  qed
  show "\<exists>io_handle_events.
      distinct io_handle_events
      \<and> set io_handle_events = {a. handle_union ?pipe a ?kevs \<noteq> 0}
      \<and> trace (fst (dispatch_kevents (Kevent_events kevents) w)) =
          trace w @ [Kevent_call []] @ pipe_drains ?pipe ?kevs
            @ map (\<lambda>a. callback_of w a (handle_union ?pipe a ?kevs)) io_handle_events
      \<and> (\<forall>a. handle_datas (fst (dispatch_kevents (Kevent_events kevents) w)) a
               = handle_datas w a)"
    using d s tr restored unfolding res by blast
next
  show "events_this_loop (handle_datas (invoke_event_callback b v) b) = 0"
    by (simp add: invoke_event_callback_def emit_def Let_def)
next
  show "trace (invoke_event_callback b v)
       = trace v @ [callback_of v b (events_this_loop (handle_datas v b))]"
    by (simp add: invoke_event_callback_def emit_def callback_of_def Let_def)
qed

theorem dispatch_one_callback_per_handle_witness:
  "(\<forall>a. events_this_loop (handle_datas subscribed_world a) = 0)
   \<and> trace (fst (dispatch_kevents
        (Kevent_events [EV_SET 7 EVFILT_READ 0 0 5 100, EV_SET 3 EVFILT_READ 0 0 4 0,
                        EV_SET 7 EVFILT_WRITE 0 0 8 100])
        subscribed_world)) =
       [Kevent_call [], Pipe_drain,
        On_event 1 10 (AWS_IO_EVENT_TYPE_READABLE OR AWS_IO_EVENT_TYPE_WRITABLE) 20]
   \<and> events_this_loop (handle_datas (fst (dispatch_kevents
        (Kevent_events [EV_SET 7 EVFILT_READ 0 0 5 100, EV_SET 3 EVFILT_READ 0 0 4 0,
                        EV_SET 7 EVFILT_WRITE 0 0 8 100])
        subscribed_world)) 100) = 0"
  using dispatch_one_callback_per_handle
    [of subscribed_world "[EV_SET 7 EVFILT_READ 0 0 5 100, EV_SET 3 EVFILT_READ 0 0 4 0,
                           EV_SET 7 EVFILT_WRITE 0 0 8 100]" 100 subscribed_world]
  by (simp add: dispatch_kevents_def MAX_EVENTS_def s_aws_event_flags_from_kevent_def
      invoke_event_callback_def emit_def EV_SET_def EVFILT_READ_def EVFILT_WRITE_def
      EV_ERROR_def EV_EOF_def subscribed_world_def subscribing_world_def running_world_def
      idle_world_def AWS_IO_EVENT_TYPE_READABLE_def AWS_IO_EVENT_TYPE_WRITABLE_def Let_def)

section \<open>destroy\<close>













end
